theory Spec2Isabelle
  imports Main "HOL-Library.Sublist"
begin

section \<open>Exceptions and external processes\<close>

text \<open>
  The exception classes of \<^verbatim>\<open>exceptions.py\<close> that \<^verbatim>\<open>device.py\<close> raises are siblings
  below \<^verbatim>\<open>IOSControlError\<close>: none is a subclass of another.  \<open>TypeError\<close> and
  \<open>AttributeError\<close> are the built-in exceptions that the interpreter raises inside
  the element resolver and when \<^verbatim>\<open>None\<close> is put into a command line.
  \<open>UncaughtRunError\<close> stands for an exception of \<^verbatim>\<open>subprocess.run\<close> that the handlers
  of a method do not name and that leaves the method as it is.
\<close>

datatype error =
    DeviceNotFoundError
  | IOSConnectionError
  | UnsupportedOperationError
  | TypeError
  | AttributeError
  | UncaughtRunError

text \<open>
  \<^verbatim>\<open>subprocess.run(argv, capture_output=True, text=True, check=True)\<close> either
  completes with exit status 0 and a captured standard output, or raises
  \<^verbatim>\<open>CalledProcessError\<close> (non-zero exit status), or raises \<^verbatim>\<open>FileNotFoundError\<close>
  (the binary \<open>argv[0]\<close> does not exist on the host), or raises another exception
  (\<^verbatim>\<open>PermissionError\<close> for a file that may not be executed, \<^verbatim>\<open>UnicodeDecodeError\<close>
  for an output that is no text), which is \<open>OtherRunError\<close>.  The handlers of
  \<^verbatim>\<open>device.py\<close> name the first two only.  The host is a function from the command
  line to that outcome.
\<close>

datatype subprocess_error = CalledProcessError | FileNotFoundError | OtherRunError

type_synonym host = "string list \<Rightarrow> subprocess_error + string"

section \<open>Python strings\<close>

text \<open>
  A Python \<^verbatim>\<open>str\<close> is a sequence of code points; it is modelled as a \<^typ>\<open>string\<close>
  whose characters are the code points below 256.  On that range \<^verbatim>\<open>str.isspace\<close>
  holds for 9..13, 28..32, 133 and 160, and \<^verbatim>\<open>str.lower\<close> adds 32 to the code
  points 65..90, 192..214 and 216..222 and leaves every other one alone.
\<close>

definition isspace :: "char \<Rightarrow> bool" where
  "isspace c = (let n = (of_char c :: nat) in
     (9 \<le> n \<and> n \<le> 13) \<or> (28 \<le> n \<and> n \<le> 32) \<or> n = 133 \<or> n = 160)"

definition strip :: "string \<Rightarrow> string" where
  "strip s = rev (dropWhile isspace (rev (dropWhile isspace s)))"

definition lower_char :: "char \<Rightarrow> char" where
  "lower_char c = (let n = (of_char c :: nat) in
     if (65 \<le> n \<and> n \<le> 90) \<or> (192 \<le> n \<and> n \<le> 214) \<or> (216 \<le> n \<and> n \<le> 222)
     then char_of (n + 32) else c)"

definition lower :: "string \<Rightarrow> string" where
  "lower s = map lower_char s"

text \<open>\<^verbatim>\<open>s.split(sep)\<close> for a one-character separator: never an empty list.\<close>

fun split :: "char \<Rightarrow> string \<Rightarrow> string list" where
  "split sep [] = [[]]"
| "split sep (c # cs) =
     (if c = sep then [] # split sep cs
      else (case split sep cs of [] \<Rightarrow> [[c]] | w # ws \<Rightarrow> (c # w) # ws))"

text \<open>\<^verbatim>\<open>needle in haystack\<close> on strings: some suffix of the haystack starts with the needle.\<close>

fun starts_with :: "string \<Rightarrow> string \<Rightarrow> bool" where
  "starts_with [] s = True"
| "starts_with (p # ps) [] = False"
| "starts_with (p # ps) (c # cs) = (p = c \<and> starts_with ps cs)"

fun str_in :: "string \<Rightarrow> string \<Rightarrow> bool" where
  "str_in needle [] = (needle = [])"
| "str_in needle (c # cs) = (starts_with needle (c # cs) \<or> str_in needle cs)"

section \<open>Device records and the device session\<close>

text \<open>The dictionary \<^verbatim>\<open>{"udid": ..., "name": ..., "ios_version": ...}\<close> built by \<^verbatim>\<open>list_devices\<close>.\<close>

record device =
  udid :: string
  name :: string
  ios_version :: string

text \<open>
  The three attributes of an \<^verbatim>\<open>IOSDevice\<close>: \<^verbatim>\<open>self.udid\<close>, \<^verbatim>\<open>self._device_info\<close>
  and \<^verbatim>\<open>self._connected\<close>.
\<close>

record session =
  session_udid :: "string option"
  device_info :: "device option"
  connected :: bool

definition init :: "string option \<Rightarrow> session" where
  "init u = \<lparr>session_udid = u, device_info = None, connected = False\<rparr>"

definition is_connected :: "session \<Rightarrow> bool" where
  "is_connected s = connected s"

subsection \<open>\<^verbatim>\<open>list_devices\<close>\<close>

definition device_ids :: "string \<Rightarrow> string list" where
  "device_ids out = filter (\<lambda>uid. uid \<noteq> []) (split CHR 0x0A (strip out))"

definition unknown_device :: "string \<Rightarrow> device" where
  "unknown_device u = \<lparr>udid = u, name = ''Unknown Device'', ios_version = ''Unknown''\<rparr>"

text \<open>
  The body of the \<^verbatim>\<open>for udid in device_ids\<close> loop.  The inner handler catches
  \<^verbatim>\<open>CalledProcessError\<close> only, so every other exception of either metadata command
  leaves the loop.
\<close>

definition device_entry :: "host \<Rightarrow> string \<Rightarrow> subprocess_error + device" where
  "device_entry run u =
     (case run [''ideviceinfo'', ''-u'', u, ''-k'', ''DeviceName''] of
        Inl CalledProcessError \<Rightarrow> Inr (unknown_device u)
      | Inl FileNotFoundError \<Rightarrow> Inl FileNotFoundError
      | Inl OtherRunError \<Rightarrow> Inl OtherRunError
      | Inr name_out \<Rightarrow>
          (case run [''ideviceinfo'', ''-u'', u, ''-k'', ''ProductVersion''] of
             Inl CalledProcessError \<Rightarrow> Inr (unknown_device u)
           | Inl FileNotFoundError \<Rightarrow> Inl FileNotFoundError
           | Inl OtherRunError \<Rightarrow> Inl OtherRunError
           | Inr version_out \<Rightarrow>
               Inr \<lparr>udid = u, name = strip name_out, ios_version = strip version_out\<rparr>))"

fun collect_devices :: "host \<Rightarrow> device list \<Rightarrow> string list \<Rightarrow> subprocess_error + device list" where
  "collect_devices run devices [] = Inr devices"
| "collect_devices run devices (u # us) =
     (case device_entry run u of
        Inl e \<Rightarrow> Inl e
      | Inr d \<Rightarrow> collect_devices run (devices @ [d]) us)"

text \<open>
  The outer handlers return the empty list on \<^verbatim>\<open>CalledProcessError\<close> and on
  \<^verbatim>\<open>FileNotFoundError\<close>, wherever in the block it was raised; any other exception
  leaves \<^verbatim>\<open>list_devices\<close>.
\<close>

definition list_devices :: "host \<Rightarrow> error + device list" where
  "list_devices run =
     (case run [''idevice_id'', ''-l''] of
        Inl CalledProcessError \<Rightarrow> Inr []
      | Inl FileNotFoundError \<Rightarrow> Inr []
      | Inl OtherRunError \<Rightarrow> Inl UncaughtRunError
      | Inr out \<Rightarrow>
          (case collect_devices run [] (device_ids out) of
             Inl CalledProcessError \<Rightarrow> Inr []
           | Inl FileNotFoundError \<Rightarrow> Inr []
           | Inl OtherRunError \<Rightarrow> Inl UncaughtRunError
           | Inr devices \<Rightarrow> Inr devices))"

subsection \<open>\<^verbatim>\<open>connect\<close> and \<^verbatim>\<open>disconnect\<close>\<close>

text \<open>
  The \<^verbatim>\<open>try\<close> block of \<^verbatim>\<open>connect\<close>.  \<^verbatim>\<open>if self.udid\<close> is true for a non-empty string
  only.  The block assigns to the session after its last \<^verbatim>\<open>raise\<close>, so an exception
  leaves the session as it was.
\<close>

definition connect_try :: "host \<Rightarrow> session \<Rightarrow> error + session" where
  "connect_try run s =
     (case list_devices run of
        Inl e \<Rightarrow> Inl e
      | Inr devices \<Rightarrow>
          if devices = [] then Inl DeviceNotFoundError
          else
            (case session_udid s of
               Some (c # cs) \<Rightarrow>
                 (case find (\<lambda>d. udid d = c # cs) devices of
                    None \<Rightarrow> Inl DeviceNotFoundError
                  | Some d \<Rightarrow> Inr (s\<lparr>device_info := Some d, connected := True\<rparr>))
             | _ \<Rightarrow>
                 (case devices of
                    d # _ \<Rightarrow> Inr (s\<lparr>session_udid := Some (udid d),
                                    device_info := Some d, connected := True\<rparr>)
                  | [] \<Rightarrow> Inl DeviceNotFoundError)))"

text \<open>
  \<^verbatim>\<open>except Exception as e: raise IOSConnectionError(...)\<close>: every exception of the
  block, whatever its class, leaves \<^verbatim>\<open>connect\<close> as an \<^verbatim>\<open>IOSConnectionError\<close>.  The
  result pairs what the call returns or raises with the session afterwards.
\<close>

definition connect :: "host \<Rightarrow> session \<Rightarrow> (error + bool) \<times> session" where
  "connect run s =
     (case connect_try run s of
        Inl e \<Rightarrow> (Inl IOSConnectionError, s)
      | Inr s' \<Rightarrow> (Inr True, s'))"

definition disconnect :: "session \<Rightarrow> session" where
  "disconnect s = s\<lparr>connected := False, device_info := None\<rparr>"

text \<open>
  The public methods of \<^verbatim>\<open>IOSDevice\<close>.  Only \<^verbatim>\<open>connect\<close> and \<^verbatim>\<open>disconnect\<close> (and the
  context manager, which calls them) assign to an attribute of \<^verbatim>\<open>self\<close>; the body of
  every other method reads \<^verbatim>\<open>self.udid\<close> and \<^verbatim>\<open>self.is_connected\<close> and assigns to
  neither, so its effect on the session is the identity.
\<close>

datatype operation =
    Connect | Disconnect | ListDevices | GetDeviceInfo | InstallApp | UninstallApp | ListApps
  | Reboot | Screenshot | Tap | Swipe | InputText | TapByText | LongPress | HomeButton
  | BackButton | WaitForElementByText | GetScreenSize

fun session_after :: "host \<Rightarrow> operation \<Rightarrow> session \<Rightarrow> session" where
  "session_after run Connect s = snd (connect run s)"
| "session_after run Disconnect s = disconnect s"
| "session_after run _ s = s"

fun run_operations :: "session \<Rightarrow> (host \<times> operation) list \<Rightarrow> session" where
  "run_operations s [] = s"
| "run_operations s ((run, op) # rest) = run_operations (session_after run op s) rest"

subsection \<open>\<^verbatim>\<open>get_device_info\<close>\<close>

text \<open>\<^verbatim>\<open>line.split(":", 1)\<close> on a line that contains the separator.\<close>

definition split_first :: "char \<Rightarrow> string \<Rightarrow> string \<times> string" where
  "split_first sep line =
     (takeWhile (\<lambda>c. c \<noteq> sep) line, drop 1 (dropWhile (\<lambda>c. c \<noteq> sep) line))"

text \<open>One round of the loop over the lines: \<^verbatim>\<open>info[key.strip()] = value.strip()\<close>.\<close>

definition parse_line :: "(string \<rightharpoonup> string) \<Rightarrow> string \<Rightarrow> (string \<rightharpoonup> string)" where
  "parse_line info line =
     (if CHR '':'' \<in> set line
      then (case split_first CHR '':'' line of (key, val) \<Rightarrow> info(strip key \<mapsto> strip val))
      else info)"

text \<open>
  A command line that holds \<^verbatim>\<open>None\<close> makes \<^verbatim>\<open>subprocess.run\<close> raise \<^verbatim>\<open>TypeError\<close>,
  which neither handler of the method catches, no more than any exception of the
  command other than the two it names.
\<close>

definition get_device_info :: "host \<Rightarrow> session \<Rightarrow> error + (string \<rightharpoonup> string)" where
  "get_device_info run s =
     (if \<not> is_connected s then Inl IOSConnectionError
      else
        (case session_udid s of
           None \<Rightarrow> Inl TypeError
         | Some u \<Rightarrow>
             (case run [''ideviceinfo'', ''-u'', u] of
                Inr out \<Rightarrow> Inr (foldl parse_line Map.empty (split CHR 0x0A out))
              | Inl CalledProcessError \<Rightarrow> Inl IOSConnectionError
              | Inl FileNotFoundError \<Rightarrow> Inl UnsupportedOperationError
              | Inl OtherRunError \<Rightarrow> Inl UncaughtRunError)))"

subsection \<open>\<^verbatim>\<open>tap\<close>\<close>

text \<open>\<^verbatim>\<open>str(n)\<close> for an integer: its decimal digits, after a minus sign when negative.\<close>

fun str_nat :: "nat \<Rightarrow> string" where
  "str_nat n =
     (if n < 10 then [char_of (48 + n)]
      else str_nat (n div 10) @ [char_of (48 + n mod 10)])"

definition str :: "int \<Rightarrow> string" where
  "str i = (if i < 0 then CHR ''-'' # str_nat (nat (- i)) else str_nat (nat i))"

definition tap_primary :: "string \<Rightarrow> int \<Rightarrow> int \<Rightarrow> string list" where
  "tap_primary u x y =
     [''python3'', ''-m'', ''pymobiledevice3'', ''developer'', ''dvt'', ''tap'',
      ''--udid'', u, str x, str y]"

definition tap_secondary :: "string \<Rightarrow> int \<Rightarrow> int \<Rightarrow> string list" where
  "tap_secondary u x y = [''tidevice'', ''--udid'', u, ''tap'', str x, str y]"

text \<open>
  The handler of the first command's \<^verbatim>\<open>CalledProcessError\<close> runs the second command
  and turns its \<^verbatim>\<open>CalledProcessError\<close> and its \<^verbatim>\<open>FileNotFoundError\<close> into
  \<^verbatim>\<open>IOSConnectionError\<close>; the handler of the first command's \<^verbatim>\<open>FileNotFoundError\<close>
  runs nothing.  No handler names another exception of either command.
\<close>

definition tap :: "host \<Rightarrow> session \<Rightarrow> int \<Rightarrow> int \<Rightarrow> error + bool" where
  "tap run s x y =
     (if \<not> is_connected s then Inl IOSConnectionError
      else
        (case session_udid s of
           None \<Rightarrow> Inl TypeError
         | Some u \<Rightarrow>
             (case run (tap_primary u x y) of
                Inr out \<Rightarrow> Inr True
              | Inl CalledProcessError \<Rightarrow>
                  (case run (tap_secondary u x y) of
                     Inr out \<Rightarrow> Inr True
                   | Inl CalledProcessError \<Rightarrow> Inl IOSConnectionError
                   | Inl FileNotFoundError \<Rightarrow> Inl IOSConnectionError
                   | Inl OtherRunError \<Rightarrow> Inl UncaughtRunError)
              | Inl FileNotFoundError \<Rightarrow> Inl UnsupportedOperationError
              | Inl OtherRunError \<Rightarrow> Inl UncaughtRunError)))"

section \<open>The UI hierarchy and the element resolver\<close>

text \<open>
  What \<^verbatim>\<open>json.loads\<close> returns: \<^verbatim>\<open>None\<close>, a \<^verbatim>\<open>bool\<close>, an \<^verbatim>\<open>int\<close>, a \<^verbatim>\<open>str\<close>, a
  \<^verbatim>\<open>list\<close> or a \<^verbatim>\<open>dict\<close> with string keys.  A dictionary is its list of items,
  read with \<^const>\<open>map_of\<close>.  Numbers are Python's unbounded integers; a hierarchy
  with a fractional number is outside this model.
\<close>

datatype json =
    JNull
  | JBool bool
  | JInt int
  | JStr string
  | JList "json list"
  | JObj "(string \<times> json) list"

text \<open>Python's truth value of an object, as \<^verbatim>\<open>if\<close> and \<^verbatim>\<open>or\<close> test it.\<close>

fun truthy :: "json \<Rightarrow> bool" where
  "truthy JNull = False"
| "truthy (JBool b) = b"
| "truthy (JInt n) = (n \<noteq> 0)"
| "truthy (JStr s) = (s \<noteq> [])"
| "truthy (JList xs) = (xs \<noteq> [])"
| "truthy (JObj d) = (d \<noteq> [])"

text \<open>\<^verbatim>\<open>a or b\<close> and \<^verbatim>\<open>d.get(k, default)\<close>.\<close>

definition py_or :: "json \<Rightarrow> json \<Rightarrow> json" where
  "py_or a b = (if truthy a then a else b)"

definition dict_get :: "(string \<times> json) list \<Rightarrow> string \<Rightarrow> json \<Rightarrow> json" where
  "dict_get d k dflt = (case map_of d k of None \<Rightarrow> dflt | Some v \<Rightarrow> v)"

text \<open>
  Arithmetic on untyped values.  \<^verbatim>\<open>bool\<close> is a subclass of \<^verbatim>\<open>int\<close>; \<^verbatim>\<open>+\<close> adds
  integers and concatenates two strings or two lists; \<^verbatim>\<open>//\<close> is floor division and
  is defined on integers only.  Every other combination raises \<^verbatim>\<open>TypeError\<close>.
\<close>

fun as_int :: "json \<Rightarrow> int option" where
  "as_int (JInt n) = Some n"
| "as_int (JBool b) = Some (if b then 1 else 0)"
| "as_int _ = None"

definition py_add :: "json \<Rightarrow> json \<Rightarrow> error + json" where
  "py_add a b =
     (case (as_int a, as_int b) of
        (Some m, Some n) \<Rightarrow> Inr (JInt (m + n))
      | _ \<Rightarrow>
        (case (a, b) of
           (JStr s, JStr t) \<Rightarrow> Inr (JStr (s @ t))
         | (JList xs, JList ys) \<Rightarrow> Inr (JList (xs @ ys))
         | _ \<Rightarrow> Inl TypeError))"

definition py_floordiv2 :: "json \<Rightarrow> error + int" where
  "py_floordiv2 a = (case as_int a of Some n \<Rightarrow> Inr (n div 2) | None \<Rightarrow> Inl TypeError)"

definition py_add_int :: "json \<Rightarrow> int \<Rightarrow> error + int" where
  "py_add_int a n = (case as_int a of Some m \<Rightarrow> Inr (m + n) | None \<Rightarrow> Inl TypeError)"

definition and_then :: "error + 'a \<Rightarrow> ('a \<Rightarrow> error + 'b) \<Rightarrow> error + 'b" where
  "and_then r f = (case r of Inl e \<Rightarrow> Inl e | Inr v \<Rightarrow> f v)"

subsection \<open>\<^verbatim>\<open>_get_center_coordinates\<close>\<close>

definition get_center_coordinates :: "json \<Rightarrow> error + int \<times> int" where
  "get_center_coordinates bounds =
     (case bounds of
        JObj b \<Rightarrow>
          (case (map_of b ''x'', map_of b ''y'', map_of b ''width'', map_of b ''height'') of
             (Some bx, Some by, Some bw, Some bh) \<Rightarrow>
               and_then (py_floordiv2 bw) (\<lambda>hw. and_then (py_add_int bx hw) (\<lambda>x.
               and_then (py_floordiv2 bh) (\<lambda>hh. and_then (py_add_int by hh) (\<lambda>y.
               Inr (x, y)))))
           | _ \<Rightarrow>
          (case (map_of b ''left'', map_of b ''top'', map_of b ''right'', map_of b ''bottom'') of
             (Some l, Some t, Some r, Some bt) \<Rightarrow>
               and_then (py_add l r) (\<lambda>lr. and_then (py_floordiv2 lr) (\<lambda>x.
               and_then (py_add t bt) (\<lambda>tb. and_then (py_floordiv2 tb) (\<lambda>y.
               Inr (x, y)))))
           | _ \<Rightarrow> Inr (100, 100)))
      | JList (b0 # b1 # b2 # b3 # _) \<Rightarrow>
          and_then (py_add b0 b2) (\<lambda>s02. and_then (py_floordiv2 s02) (\<lambda>x.
          and_then (py_add b1 b3) (\<lambda>s13. and_then (py_floordiv2 s13) (\<lambda>y.
          Inr (x, y)))))
      | _ \<Rightarrow> Inr (100, 100))"

subsection \<open>\<^verbatim>\<open>_find_element_by_text\<close>\<close>

text \<open>The three \<^verbatim>\<open>or\<close> chains that \<^verbatim>\<open>search_recursive\<close> reads from a dictionary.\<close>

definition element_text :: "(string \<times> json) list \<Rightarrow> json" where
  "element_text element =
     py_or (dict_get element ''text'' (JStr []))
       (py_or (dict_get element ''label'' (JStr [])) (dict_get element ''name'' (JStr [])))"

definition element_bounds :: "(string \<times> json) list \<Rightarrow> json" where
  "element_bounds element = py_or (dict_get element ''bounds'' JNull) (dict_get element ''frame'' JNull)"

definition element_children :: "(string \<times> json) list \<Rightarrow> json" where
  "element_children element =
     py_or (dict_get element ''children'' (JList [])) (dict_get element ''elements'' (JList []))"

text \<open>
  The test of the text: \<^verbatim>\<open>element_text == text\<close>, or
  \<^verbatim>\<open>text.lower() in element_text.lower()\<close>, where an object that is not a string has
  no method \<^verbatim>\<open>lower\<close>.
\<close>

definition text_matches :: "bool \<Rightarrow> string \<Rightarrow> json \<Rightarrow> error + bool" where
  "text_matches exact_match text et =
     (if exact_match then Inr (et = JStr text)
      else (case et of
              JStr t \<Rightarrow> Inr (str_in (lower text) (lower t))
            | _ \<Rightarrow> Inl AttributeError))"

text \<open>The part of \<^verbatim>\<open>search_recursive\<close> on a dictionary that comes before its children.\<close>

definition match_element :: "bool \<Rightarrow> string \<Rightarrow> (string \<times> json) list \<Rightarrow> error + (int \<times> int) option" where
  "match_element exact_match text element =
     (if truthy (element_text element) then
        and_then (text_matches exact_match text (element_text element)) (\<lambda>hit.
          if hit \<and> truthy (element_bounds element)
          then and_then (get_center_coordinates (element_bounds element)) (\<lambda>c. Inr (Some c))
          else Inr None)
      else Inr None)"

lemma map_of_size:
  "map_of d k = Some v \<Longrightarrow> size v < Suc (size_list (size_prod (\<lambda>x. 0) size) d)"
  by (induction d) (auto split: if_splits)

lemma element_children_size:
  "element_children element = JList xs
     \<Longrightarrow> size_list size xs < Suc (size_list (size_prod (\<lambda>x. 0) size) element)"
  using map_of_size[of element "''children''" "JList xs"]
        map_of_size[of element "''elements''" "JList xs"]
  by (auto simp: element_children_def py_or_def dict_get_def split: if_splits option.splits)

text \<open>
  \<^verbatim>\<open>for child in children\<close> runs over the items of a list.  Over a dictionary it runs
  over the keys and over a string over its characters: these are strings, on which
  \<^verbatim>\<open>search_recursive\<close> returns \<^verbatim>\<open>None\<close>, so the loop ends without a result.  Any
  other object is not iterable.  A result of a recursive call is a pair, which is
  true, or \<^verbatim>\<open>None\<close>.
\<close>

function (sequential) search_recursive :: "bool \<Rightarrow> string \<Rightarrow> json \<Rightarrow> error + (int \<times> int) option"
  and search_each :: "bool \<Rightarrow> string \<Rightarrow> json list \<Rightarrow> error + (int \<times> int) option" where
  "search_recursive exact_match text (JObj element) =
     (case match_element exact_match text element of
        Inl e \<Rightarrow> Inl e
      | Inr (Some c) \<Rightarrow> Inr (Some c)
      | Inr None \<Rightarrow>
          (case element_children element of
             JList children \<Rightarrow> search_each exact_match text children
           | JObj keys \<Rightarrow> Inr None
           | JStr chars \<Rightarrow> Inr None
           | _ \<Rightarrow> Inl TypeError))"
| "search_recursive exact_match text (JList items) = search_each exact_match text items"
| "search_recursive exact_match text _ = Inr None"
| "search_each exact_match text [] = Inr None"
| "search_each exact_match text (item # items) =
     (case search_recursive exact_match text item of
        Inl e \<Rightarrow> Inl e
      | Inr (Some c) \<Rightarrow> Inr (Some c)
      | Inr None \<Rightarrow> search_each exact_match text items)"
  by pat_completeness auto
termination
  by (relation "measure (\<lambda>a. case a of Inl (_, _, j) \<Rightarrow> size j | Inr (_, _, js) \<Rightarrow> size_list size js)")
     (auto dest: element_children_size)

text \<open>The loop over the children of a dictionary, as \<^verbatim>\<open>search_recursive\<close> runs it.\<close>

definition search_children ::
  "bool \<Rightarrow> string \<Rightarrow> (string \<times> json) list \<Rightarrow> error + (int \<times> int) option" where
  "search_children exact_match text element =
     (case element_children element of
        JList children \<Rightarrow> search_each exact_match text children
      | JObj keys \<Rightarrow> Inr None
      | JStr chars \<Rightarrow> Inr None
      | _ \<Rightarrow> Inl TypeError)"

definition find_element_by_text :: "json \<Rightarrow> string \<Rightarrow> bool \<Rightarrow> error + (int \<times> int) option" where
  "find_element_by_text ui_info text exact_match = search_recursive exact_match text ui_info"

section \<open>Notions used to state the properties\<close>

subsection \<open>The session\<close>

text \<open>\<^verbatim>\<open>self.udid\<close> is a non-empty string.\<close>

definition udid_set :: "session \<Rightarrow> bool" where
  "udid_set s = (case session_udid s of Some (c # cs) \<Rightarrow> True | _ \<Rightarrow> False)"

definition session_ok :: "session \<Rightarrow> bool" where
  "session_ok s = (connected s \<longrightarrow> device_info s \<noteq> None \<and> udid_set s)"

subsection \<open>Device discovery\<close>

text \<open>A metadata lookup of the identifier ends with a non-zero exit status.\<close>

definition metadata_exit_nonzero :: "host \<Rightarrow> string \<Rightarrow> bool" where
  "metadata_exit_nonzero run u =
     (run [''ideviceinfo'', ''-u'', u, ''-k'', ''DeviceName''] = Inl CalledProcessError
      \<or> run [''ideviceinfo'', ''-u'', u, ''-k'', ''ProductVersion''] = Inl CalledProcessError)"

text \<open>A command was run to its end: it completed or it ended with a non-zero exit status.\<close>

definition ran_to_exit :: "subprocess_error + string \<Rightarrow> bool" where
  "ran_to_exit r = (case r of Inr out \<Rightarrow> True | Inl CalledProcessError \<Rightarrow> True | Inl e \<Rightarrow> False)"

text \<open>Every metadata lookup of every one of the identifiers was run to its end.\<close>

definition metadata_lookups_ran :: "host \<Rightarrow> string list \<Rightarrow> bool" where
  "metadata_lookups_ran run us =
     (\<forall>u \<in> set us. \<forall>k \<in> {''DeviceName'', ''ProductVersion''}.
        ran_to_exit (run [''ideviceinfo'', ''-u'', u, ''-k'', k]))"

subsection \<open>The mapping of an info dump, in the words of the specification\<close>

text \<open>
  Of the lines that contain a colon, the part before the first colon is the key and the
  part after it the value, both stripped; a key has the value of the last line that
  carries it.
\<close>

definition key_of :: "string \<Rightarrow> string" where
  "key_of line = strip (takeWhile (\<lambda>c. c \<noteq> CHR '':'') line)"

definition value_of :: "string \<Rightarrow> string" where
  "value_of line = strip (drop 1 (dropWhile (\<lambda>c. c \<noteq> CHR '':'') line))"

definition info_mapping :: "string \<Rightarrow> (string \<rightharpoonup> string)" where
  "info_mapping out k =
     (let ls = filter (\<lambda>line. CHR '':'' \<in> set line \<and> key_of line = k) (split CHR 0x0A out)
      in if ls = [] then None else Some (value_of (last ls)))"

subsection \<open>The hierarchy in depth-first pre-order\<close>


text \<open>
  A node counts as a match when its text, the first non-empty of the three text fields,
  is a string that satisfies the match rule, and it carries a bounds value: a value
  under \<^verbatim>\<open>bounds\<close> or \<^verbatim>\<open>frame\<close> that Python takes for true.
\<close>

definition accepts :: "bool \<Rightarrow> string \<Rightarrow> (string \<times> json) list \<Rightarrow> bool" where
  "accepts exact_match text element =
     (case element_text element of
        JStr t \<Rightarrow> t \<noteq> [] \<and> (if exact_match then t = text else str_in (lower text) (lower t))
                  \<and> truthy (element_bounds element)
      | _ \<Rightarrow> False)"

text \<open>
  The shape of a node in the data model: its text, if any, is a string, and its children
  collection can be iterated.
\<close>

definition text_is_string :: "(string \<times> json) list \<Rightarrow> bool" where
  "text_is_string element = (case element_text element of JStr t \<Rightarrow> True | v \<Rightarrow> \<not> truthy v)"


text \<open>
  Only a partial match calls a method of the text, so only there a text that is no
  string is an error.  A node is in order when its text raises no such error and its
  children can be iterated.
\<close>

definition text_raises :: "bool \<Rightarrow> (string \<times> json) list \<Rightarrow> bool" where
  "text_raises exact_match element = (\<not> exact_match \<and> \<not> text_is_string element)"





subsection \<open>Shapes of a bounds value\<close>

text \<open>
  The three encodings of the data model of the specification: a dictionary with the keys
  \<open>x, y, width, height\<close> or with the keys \<open>left, top, right, bottom\<close>, or a sequence of
  four elements.
\<close>

definition spec_shape :: "json \<Rightarrow> bool" where
  "spec_shape bounds =
     (case bounds of
        JObj b \<Rightarrow> (map_of b ''x'' \<noteq> None \<and> map_of b ''y'' \<noteq> None
                     \<and> map_of b ''width'' \<noteq> None \<and> map_of b ''height'' \<noteq> None)
                  \<or> (map_of b ''left'' \<noteq> None \<and> map_of b ''top'' \<noteq> None
                     \<and> map_of b ''right'' \<noteq> None \<and> map_of b ''bottom'' \<noteq> None)
      | JList xs \<Rightarrow> length xs = 4
      | _ \<Rightarrow> False)"

text \<open>The same with a sequence of at least four elements.\<close>

definition code_shape :: "json \<Rightarrow> bool" where
  "code_shape bounds =
     (case bounds of
        JObj b \<Rightarrow> (map_of b ''x'' \<noteq> None \<and> map_of b ''y'' \<noteq> None
                     \<and> map_of b ''width'' \<noteq> None \<and> map_of b ''height'' \<noteq> None)
                  \<or> (map_of b ''left'' \<noteq> None \<and> map_of b ''top'' \<noteq> None
                     \<and> map_of b ''right'' \<noteq> None \<and> map_of b ''bottom'' \<noteq> None)
      | JList xs \<Rightarrow> 4 \<le> length xs
      | _ \<Rightarrow> False)"

section \<open>Example hosts, sessions and hierarchies\<close>

text \<open>A host with one device, \<open>other-udid\<close>, whose metadata commands succeed.\<close>

definition host_other_device :: host where
  "host_other_device argv =
     (if argv = [''idevice_id'', ''-l''] then Inr ''other-udid\<newline>''
      else if argv = [''ideviceinfo'', ''-u'', ''other-udid'', ''-k'', ''DeviceName'']
        then Inr ''Other Device\<newline>''
      else if argv = [''ideviceinfo'', ''-u'', ''other-udid'', ''-k'', ''ProductVersion'']
        then Inr ''17.0\<newline>''
      else Inl FileNotFoundError)"

text \<open>A host with the discovery command and two devices, and no other binary.\<close>

definition host_no_ideviceinfo :: host where
  "host_no_ideviceinfo argv =
     (if argv = [''idevice_id'', ''-l''] then Inr ''A\<newline>B\<newline>''
      else Inl FileNotFoundError)"

text \<open>Two devices; the metadata commands succeed for \<open>A\<close> and exit non-zero for \<open>B\<close>.\<close>

definition host_second_fails :: host where
  "host_second_fails argv =
     (if argv = [''idevice_id'', ''-l''] then Inr ''A\<newline>B\<newline>''
      else if argv = [''ideviceinfo'', ''-u'', ''A'', ''-k'', ''DeviceName'']
        then Inr ''Phone\<newline>''
      else if argv = [''ideviceinfo'', ''-u'', ''A'', ''-k'', ''ProductVersion'']
        then Inr ''17.0\<newline>''
      else Inl CalledProcessError)"

text \<open>The same host with a file \<open>ideviceinfo\<close> that may not be executed.\<close>

definition host_ideviceinfo_not_executable :: host where
  "host_ideviceinfo_not_executable argv =
     (if argv = [''idevice_id'', ''-l''] then Inr ''A\<newline>B\<newline>''
      else Inl OtherRunError)"

definition host_empty :: host where
  "host_empty argv = Inl FileNotFoundError"

definition host_nothing_works :: host where
  "host_nothing_works argv = Inl CalledProcessError"

definition host_tap_secondary_only :: host where
  "host_tap_secondary_only argv =
     (if argv = [''tidevice'', ''--udid'', ''A'', ''tap'', ''10'', ''20''] then Inr []
      else Inl CalledProcessError)"

definition info_dump :: string where
  "info_dump = ''DeviceName: Test iPhone\<newline>no colon here\<newline>ProductVersion: 16.0\<newline>ProductVersion : 17.0\<newline>''"

definition host_info :: host where
  "host_info argv =
     (if argv = [''ideviceinfo'', ''-u'', ''A''] then Inr info_dump else Inl CalledProcessError)"

definition session_A :: session where
  "session_A = \<lparr>session_udid = Some ''A'',
                 device_info = Some \<lparr>udid = ''A'', name = ''Phone'', ios_version = ''17.0''\<rparr>,
                 connected = True\<rparr>"





definition button_xywh :: "(string \<times> json) list" where
  "button_xywh = [(''text'', JStr ''Sign In''),
                  (''bounds'', JObj [(''x'', JInt 10), (''y'', JInt 20),
                                     (''width'', JInt 101), (''height'', JInt 41)])]"

definition button_ltrb :: "(string \<times> json) list" where
  "button_ltrb = [(''label'', JStr ''Sign In''),
                  (''frame'', JObj [(''left'', JInt 10), (''top'', JInt 20),
                                    (''right'', JInt 111), (''bottom'', JInt 61)])]"

definition button_seq4 :: "(string \<times> json) list" where
  "button_seq4 = [(''text'', JStr ''OK''),
                  (''bounds'', JList [JInt 3, JInt 4, JInt 10, JInt 11])]"

definition button_seq5 :: "(string \<times> json) list" where
  "button_seq5 = [(''text'', JStr ''OK''),
                  (''bounds'', JList [JInt 0, JInt 0, JInt 10, JInt 10, JInt 7])]"

definition button_odd_bounds :: "(string \<times> json) list" where
  "button_odd_bounds = [(''text'', JStr ''OK''), (''bounds'', JStr ''0,0,10,10'')]"

definition label_hello :: "(string \<times> json) list" where
  "label_hello = [(''label'', JStr ''Hello World''),
                  (''bounds'', JList [JInt 0, JInt 0, JInt 8, JInt 6])]"

section \<open>The session: connecting and disconnecting\<close>

lemma collect_devices_udid:
  "collect_devices run acc us = Inr ds \<Longrightarrow> map udid ds = map udid acc @ us"
proof (induction us arbitrary: acc)
  case Nil
  then show ?case by simp
next
  case (Cons u us)
  then show ?case
    by (auto simp: device_entry_def unknown_device_def split: sum.splits subprocess_error.splits)
qed

lemma list_devices_udid_nonempty:
  assumes "list_devices run = Inr ds" and "d \<in> set ds"
  shows "udid d \<noteq> []"
proof -
  from assms(2) have "ds \<noteq> []" by auto
  with assms(1) obtain out where c: "collect_devices run [] (device_ids out) = Inr ds"
    by (auto simp: list_devices_def split: sum.splits subprocess_error.splits)
  from collect_devices_udid[OF c] have "map udid ds = device_ids out" by simp
  then have "udid d \<in> set (device_ids out)"
    using assms(2) by (metis image_eqI list.set_map)
  then show ?thesis by (simp add: device_ids_def)
qed

lemma list_devices_other_device:
  "list_devices host_other_device
     = Inr [\<lparr>udid = ''other-udid'', name = ''Other Device'', ios_version = ''17.0''\<rparr>]"
  by (simp add: list_devices_def host_other_device_def device_ids_def strip_def isspace_def
        device_entry_def)

text \<open>
  C1.  A session that asks for a udid which the discovery list does not hold, while the
  list holds another device, should fail with the device-not-found error, as the
  docstring of \<^verbatim>\<open>connect\<close>, the test \<^verbatim>\<open>test_connect_specific_device_not_found\<close> and the
  handler in \<^verbatim>\<open>cmd_device_info\<close> expect.  The code raises \<^verbatim>\<open>DeviceNotFoundError\<close>
  inside its own \<^verbatim>\<open>try\<close> block, whose handler replaces it: what leaves \<^verbatim>\<open>connect\<close> is
  an \<^verbatim>\<open>IOSConnectionError\<close>, which is not a device-not-found error.
\<close>

theorem connect_absent_udid_raises_connection_error:
  "list_devices host_other_device
     = Inr [\<lparr>udid = ''other-udid'', name = ''Other Device'', ios_version = ''17.0''\<rparr>]
   \<and> connect_try host_other_device (init (Some ''non-existent-udid'')) = Inl DeviceNotFoundError
   \<and> connect host_other_device (init (Some ''non-existent-udid''))
       = (Inl IOSConnectionError, init (Some ''non-existent-udid''))"
  by (simp add: connect_def connect_try_def list_devices_other_device init_def)

text \<open>
  C9.  \<^verbatim>\<open>disconnect\<close> has no failing branch; after it the connected flag is false and the
  cached record is cleared, whatever the session was, and a second call changes nothing.
\<close>

theorem disconnect_idempotent:
  "connected (disconnect s) = False
   \<and> device_info (disconnect s) = None
   \<and> session_udid (disconnect s) = session_udid s
   \<and> disconnect (disconnect s) = disconnect s"
  by (simp add: disconnect_def)

lemma connect_try_sets_all:
  assumes "connect_try run s = Inr s'"
  shows "connected s' \<and> device_info s' \<noteq> None \<and> udid_set s'"
proof -
  from assms obtain devices where l: "list_devices run = Inr devices" and "devices \<noteq> []"
    by (auto simp: connect_try_def split: sum.splits if_splits)
  then obtain d ds where dd: "devices = d # ds" by (cases devices) auto
  have "udid d \<noteq> []" using list_devices_udid_nonempty[OF l, of d] dd by simp
  then obtain c cs where "udid d = c # cs" by (cases "udid d") auto
  with assms l dd show ?thesis
    by (auto simp: connect_try_def udid_set_def
             split: option.splits list.splits if_splits)
qed

lemma session_after_ok:
  assumes "session_ok s"
  shows "session_ok (session_after run op s)"
proof (cases op)
  case Connect
  show ?thesis
  proof (cases "connect_try run s")
    case (Inl e)
    with assms Connect show ?thesis by (simp add: connect_def)
  next
    case (Inr s')
    with Connect connect_try_sets_all[OF Inr] show ?thesis
      by (simp add: connect_def session_ok_def)
  qed
next
  case Disconnect
  then show ?thesis by (simp add: disconnect_def session_ok_def)
qed (use assms in simp_all)

lemma run_operations_ok: "session_ok s \<Longrightarrow> session_ok (run_operations s ops)"
  by (induction s ops rule: run_operations.induct) (auto simp: session_after_ok)

text \<open>
  C10.  Every session reached from a new \<^verbatim>\<open>IOSDevice\<close> by any sequence of operations on
  any hosts satisfies: if the connected flag is true, the cached record is present and
  the udid is a non-empty string.  \<^verbatim>\<open>connect\<close> either raises and leaves the session as
  it was, or returns with the flag true, the record present and the udid non-empty;
  \<^verbatim>\<open>disconnect\<close> clears the flag and the record; every other operation leaves the
  session unchanged.
\<close>

theorem session_invariant:
  "session_ok (run_operations (init u) ops)
   \<and> (op \<noteq> Connect \<and> op \<noteq> Disconnect \<longrightarrow> session_after run op s = s)
   \<and> (case connect run s of
         (Inl e, s') \<Rightarrow> s' = s
       | (Inr b, s') \<Rightarrow> connected s' \<and> device_info s' \<noteq> None \<and> udid_set s')
   \<and> \<not> connected (disconnect s) \<and> device_info (disconnect s) = None"
proof -
  have a: "session_ok (run_operations (init u) ops)"
    by (rule run_operations_ok) (simp add: session_ok_def init_def)
  have b: "op \<noteq> Connect \<and> op \<noteq> Disconnect \<longrightarrow> session_after run op s = s"
    by (cases op) simp_all
  have c: "(case connect run s of
              (Inl e, s') \<Rightarrow> s' = s
            | (Inr b, s') \<Rightarrow> connected s' \<and> device_info s' \<noteq> None \<and> udid_set s')"
    using connect_try_sets_all[of run s] by (auto simp: connect_def split: sum.splits)
  have d: "\<not> connected (disconnect s) \<and> device_info (disconnect s) = None"
    by (simp add: disconnect_def)
  from a b c d show ?thesis by blast
qed

theorem session_invariant_witness:
  "run_operations (init None) [(host_other_device, Connect), (host_empty, Tap)]
     = \<lparr>session_udid = Some ''other-udid'',
         device_info = Some \<lparr>udid = ''other-udid'', name = ''Other Device'',
                              ios_version = ''17.0''\<rparr>,
         connected = True\<rparr>
   \<and> session_ok (run_operations (init None) [(host_other_device, Connect), (host_empty, Tap)])
   \<and> session_after host_empty Tap session_A = session_A
   \<and> connect host_empty (init (Some ''A'')) = (Inl IOSConnectionError, init (Some ''A''))
   \<and> connected (disconnect session_A) = False"
proof -
  have r: "run_operations (init None) [(host_other_device, Connect), (host_empty, Tap)]
     = \<lparr>session_udid = Some ''other-udid'',
         device_info = Some \<lparr>udid = ''other-udid'', name = ''Other Device'',
                              ios_version = ''17.0''\<rparr>,
         connected = True\<rparr>"
    by (simp add: connect_def connect_try_def list_devices_other_device init_def)
  have e: "connect host_empty (init (Some ''A'')) = (Inl IOSConnectionError, init (Some ''A''))"
    by (simp add: connect_def connect_try_def list_devices_def host_empty_def)
  from session_invariant[of None "[(host_other_device, Connect), (host_empty, Tap)]"
         Tap host_empty session_A] r e
  show ?thesis by simp
qed

section \<open>Device discovery\<close>

text \<open>
  C6, as stated: one record for each discovered identifier on every discovery run, a
  failed metadata lookup giving the placeholder and never a dropped entry or a raised
  error.  On a host that has the discovery command and lacks the binary of the metadata
  command, the lookup raises \<^verbatim>\<open>FileNotFoundError\<close>, which the handler inside the loop
  does not catch and the outer handler turns into the empty list: two identifiers, no
  record.  On a host whose metadata command may not be executed the lookup raises an
  exception that no handler names, and it leaves \<^verbatim>\<open>list_devices\<close>.
\<close>

theorem list_devices_drops_entries_counterexample:
  "host_no_ideviceinfo [''idevice_id'', ''-l''] = Inr ''A\<newline>B\<newline>''
   \<and> device_ids ''A\<newline>B\<newline>'' = [''A'', ''B'']
   \<and> host_no_ideviceinfo [''ideviceinfo'', ''-u'', ''A'', ''-k'', ''DeviceName'']
       = Inl FileNotFoundError
   \<and> list_devices host_no_ideviceinfo = Inr []
   \<and> host_ideviceinfo_not_executable [''idevice_id'', ''-l''] = Inr ''A\<newline>B\<newline>''
   \<and> host_ideviceinfo_not_executable [''ideviceinfo'', ''-u'', ''A'', ''-k'', ''DeviceName'']
       = Inl OtherRunError
   \<and> list_devices host_ideviceinfo_not_executable = Inl UncaughtRunError"
  by (simp add: host_no_ideviceinfo_def host_ideviceinfo_not_executable_def device_ids_def
        strip_def isspace_def list_devices_def device_entry_def)

lemma device_entry_ran:
  assumes "ran_to_exit (run [''ideviceinfo'', ''-u'', u, ''-k'', ''DeviceName''])"
      and "ran_to_exit (run [''ideviceinfo'', ''-u'', u, ''-k'', ''ProductVersion''])"
  shows "\<exists>d. device_entry run u = Inr d \<and> udid d = u
          \<and> (metadata_exit_nonzero run u \<longrightarrow> d = unknown_device u)"
  using assms
  by (auto simp: device_entry_def metadata_exit_nonzero_def unknown_device_def ran_to_exit_def
           split: sum.splits subprocess_error.splits)

lemma collect_devices_ran:
  assumes "metadata_lookups_ran run us"
  shows "\<exists>ds. collect_devices run acc us = Inr (acc @ ds) \<and> map udid ds = us
          \<and> (\<forall>i < length us. metadata_exit_nonzero run (us ! i)
                \<longrightarrow> ds ! i = unknown_device (us ! i))"
  using assms
proof (induction us arbitrary: acc)
  case Nil
  then show ?case by simp
next
  case (Cons u us)
  from Cons.prems obtain d where d: "device_entry run u = Inr d" "udid d = u"
      "metadata_exit_nonzero run u \<longrightarrow> d = unknown_device u"
    using device_entry_ran[of run u] by (auto simp: metadata_lookups_ran_def)
  from Cons.prems have "metadata_lookups_ran run us"
    by (simp add: metadata_lookups_ran_def)
  from Cons.IH[OF this, of "acc @ [d]"] obtain ds where
    ds: "collect_devices run (acc @ [d]) us = Inr ((acc @ [d]) @ ds)" "map udid ds = us"
        "\<forall>i < length us. metadata_exit_nonzero run (us ! i) \<longrightarrow> ds ! i = unknown_device (us ! i)"
    by blast
  have "\<forall>i < length (u # us). metadata_exit_nonzero run ((u # us) ! i)
          \<longrightarrow> (d # ds) ! i = unknown_device ((u # us) ! i)"
  proof (intro allI impI)
    fix i
    assume "i < length (u # us)" "metadata_exit_nonzero run ((u # us) ! i)"
    then show "(d # ds) ! i = unknown_device ((u # us) ! i)"
      using d(3) ds(3) by (cases i) auto
  qed
  with d ds show ?case by (intro exI[of _ "d # ds"]) simp
qed

text \<open>
  C6, amended.  When the discovery command completes and every metadata lookup of a
  discovered identifier is run to its end (it completes or exits non-zero),
  \<^verbatim>\<open>list_devices\<close> raises nothing and returns one record for each discovered identifier,
  in the order of discovery, and the record of an identifier whose metadata lookup
  exits non-zero is the placeholder with the names \<open>Unknown Device\<close> and \<open>Unknown\<close>.
\<close>

theorem list_devices_one_record_each:
  assumes "run [''idevice_id'', ''-l''] = Inr out"
      and "metadata_lookups_ran run (device_ids out)"
  shows "\<exists>ds. list_devices run = Inr ds
           \<and> map udid ds = device_ids out
           \<and> (\<forall>i < length (device_ids out). metadata_exit_nonzero run (device_ids out ! i)
                 \<longrightarrow> ds ! i = \<lparr>udid = device_ids out ! i, name = ''Unknown Device'',
                                 ios_version = ''Unknown''\<rparr>)"
proof -
  from collect_devices_ran[OF assms(2), of "[]"] obtain ds where
    "collect_devices run [] (device_ids out) = Inr ds" "map udid ds = device_ids out"
    "\<forall>i < length (device_ids out). metadata_exit_nonzero run (device_ids out ! i)
        \<longrightarrow> ds ! i = unknown_device (device_ids out ! i)"
    by auto
  with assms(1) show ?thesis by (simp add: list_devices_def unknown_device_def)
qed

theorem list_devices_one_record_each_witness:
  "host_second_fails [''idevice_id'', ''-l''] = Inr ''A\<newline>B\<newline>''
   \<and> metadata_lookups_ran host_second_fails (device_ids ''A\<newline>B\<newline>'')
   \<and> device_ids ''A\<newline>B\<newline>'' = [''A'', ''B'']
   \<and> metadata_exit_nonzero host_second_fails ''B''
   \<and> list_devices host_second_fails
       = Inr [\<lparr>udid = ''A'', name = ''Phone'', ios_version = ''17.0''\<rparr>,
              \<lparr>udid = ''B'', name = ''Unknown Device'', ios_version = ''Unknown''\<rparr>]"
proof -
  have h1: "host_second_fails [''idevice_id'', ''-l''] = Inr ''A\<newline>B\<newline>''"
    by (simp add: host_second_fails_def)
  have ids: "device_ids ''A\<newline>B\<newline>'' = [''A'', ''B'']"
    by (simp add: device_ids_def strip_def isspace_def)
  have h2: "metadata_lookups_ran host_second_fails (device_ids ''A\<newline>B\<newline>'')"
    unfolding ids by (simp add: metadata_lookups_ran_def ran_to_exit_def host_second_fails_def)
  have f: "metadata_exit_nonzero host_second_fails ''B''"
    by (simp add: metadata_exit_nonzero_def host_second_fails_def)
  have l: "list_devices host_second_fails
       = Inr [\<lparr>udid = ''A'', name = ''Phone'', ios_version = ''17.0''\<rparr>,
              \<lparr>udid = ''B'', name = ''Unknown Device'', ios_version = ''Unknown''\<rparr>]"
    by (simp add: list_devices_def host_second_fails_def ids device_entry_def unknown_device_def
          strip_def isspace_def)
  from list_devices_one_record_each[OF h1 h2] h1 h2 ids f l show ?thesis
    by simp
qed

section \<open>Device information\<close>

lemma parse_line_apply:
  "parse_line info line k =
     (if CHR '':'' \<in> set line \<and> key_of line = k then Some (value_of line) else info k)"
  by (simp add: parse_line_def split_first_def key_of_def value_of_def)

lemma foldl_parse_line:
  "foldl parse_line info ls k =
     (let fs = filter (\<lambda>line. CHR '':'' \<in> set line \<and> key_of line = k) ls
      in if fs = [] then info k else Some (value_of (last fs)))"
proof (induction ls rule: rev_induct)
  case Nil
  show ?case by simp
next
  case (snoc x xs)
  have "foldl parse_line info (xs @ [x]) k = parse_line (foldl parse_line info xs) x k"
    by simp
  also have "\<dots> = (if CHR '':'' \<in> set x \<and> key_of x = k then Some (value_of x)
                    else foldl parse_line info xs k)"
    by (rule parse_line_apply)
  finally show ?case
    by (simp add: snoc Let_def)
qed

text \<open>
  C8.  On a connected session whose info-dump command completes with the text \<open>out\<close>,
  \<^verbatim>\<open>get_device_info\<close> returns the mapping that the specification describes: the lines
  with a colon, split at the first colon, key and value stripped, lines without a colon
  ignored, and the last value of a key winning.
\<close>

theorem get_device_info_mapping:
  assumes "is_connected s" and "session_udid s = Some u"
      and "run [''ideviceinfo'', ''-u'', u] = Inr out"
  shows "get_device_info run s = Inr (info_mapping out)"
proof -
  have "foldl parse_line Map.empty (split CHR 0x0A out) = info_mapping out"
    by (rule ext) (simp add: foldl_parse_line info_mapping_def Let_def)
  with assms show ?thesis by (simp add: get_device_info_def)
qed

theorem get_device_info_mapping_witness:
  "is_connected session_A \<and> session_udid session_A = Some ''A''
   \<and> host_info [''ideviceinfo'', ''-u'', ''A''] = Inr info_dump
   \<and> get_device_info host_info session_A = Inr (info_mapping info_dump)
   \<and> info_mapping info_dump ''ProductVersion'' = Some ''17.0''
   \<and> info_mapping info_dump ''DeviceName'' = Some ''Test iPhone''
   \<and> info_mapping info_dump ''no colon here'' = None"
proof -
  have c: "is_connected session_A" by (simp add: is_connected_def session_A_def)
  have u: "session_udid session_A = Some ''A''" by (simp add: session_A_def)
  have r: "host_info [''ideviceinfo'', ''-u'', ''A''] = Inr info_dump"
    by (simp add: host_info_def)
  from get_device_info_mapping[of session_A "''A''" host_info info_dump, OF c u r] c u r
  show ?thesis
    by (simp add: info_mapping_def info_dump_def key_of_def value_of_def strip_def isspace_def
          Let_def)
qed

section \<open>Tapping\<close>

text \<open>
  C5.  On a connected session: when the first command exits non-zero the result is
  decided by the second command, true if it completes and a connection error if it
  fails, by a non-zero exit or for want of its binary; when the binary of the first
  command is absent the call raises the unsupported-operation error; and \<^verbatim>\<open>tap\<close>
  returns true exactly when the first command completes, or the first exits non-zero
  and the second completes.  An exception of either command that is neither a non-zero
  exit nor a missing binary leaves \<^verbatim>\<open>tap\<close> as it is.
\<close>

theorem tap_fallback:
  assumes "is_connected s" and "session_udid s = Some u"
  shows "(run (tap_primary u x y) = Inl CalledProcessError \<longrightarrow>
            tap run s x y = (case run (tap_secondary u x y) of
                               Inr out \<Rightarrow> Inr True
                             | Inl CalledProcessError \<Rightarrow> Inl IOSConnectionError
                             | Inl FileNotFoundError \<Rightarrow> Inl IOSConnectionError
                             | Inl OtherRunError \<Rightarrow> Inl UncaughtRunError))
       \<and> (run (tap_primary u x y) = Inl FileNotFoundError \<longrightarrow>
            tap run s x y = Inl UnsupportedOperationError)
       \<and> (run (tap_primary u x y) = Inl OtherRunError \<longrightarrow>
            tap run s x y = Inl UncaughtRunError)
       \<and> (tap run s x y = Inr True \<longleftrightarrow>
            (\<exists>out. run (tap_primary u x y) = Inr out)
            \<or> (run (tap_primary u x y) = Inl CalledProcessError
                \<and> (\<exists>out. run (tap_secondary u x y) = Inr out)))"
  using assms
  by (auto simp: tap_def split: sum.splits subprocess_error.splits)

lemma tap_primary_A:
  "tap_primary ''A'' 10 20 = [''python3'', ''-m'', ''pymobiledevice3'', ''developer'', ''dvt'',
                               ''tap'', ''--udid'', ''A'', ''10'', ''20'']"
  by code_simp

lemma tap_secondary_A:
  "tap_secondary ''A'' 10 20 = [''tidevice'', ''--udid'', ''A'', ''tap'', ''10'', ''20'']"
  by code_simp

theorem tap_fallback_witness:
  "is_connected session_A \<and> session_udid session_A = Some ''A''
   \<and> host_tap_secondary_only (tap_primary ''A'' 10 20) = Inl CalledProcessError
   \<and> host_tap_secondary_only (tap_secondary ''A'' 10 20) = Inr []
   \<and> tap host_tap_secondary_only session_A 10 20 = Inr True
   \<and> host_nothing_works (tap_primary ''A'' 10 20) = Inl CalledProcessError
   \<and> host_nothing_works (tap_secondary ''A'' 10 20) = Inl CalledProcessError
   \<and> tap host_nothing_works session_A 10 20 = Inl IOSConnectionError
   \<and> host_empty (tap_primary ''A'' 10 20) = Inl FileNotFoundError
   \<and> tap host_empty session_A 10 20 = Inl UnsupportedOperationError"
proof -
  have c: "is_connected session_A" by (simp add: is_connected_def session_A_def)
  have u: "session_udid session_A = Some ''A''" by (simp add: session_A_def)
  have p1: "host_tap_secondary_only (tap_primary ''A'' 10 20) = Inl CalledProcessError"
    by (simp add: tap_primary_A host_tap_secondary_only_def)
  have s1: "host_tap_secondary_only (tap_secondary ''A'' 10 20) = Inr []"
    by (simp add: tap_secondary_A host_tap_secondary_only_def)
  have p2: "host_nothing_works (tap_primary ''A'' 10 20) = Inl CalledProcessError"
    by (simp add: host_nothing_works_def)
  have s2: "host_nothing_works (tap_secondary ''A'' 10 20) = Inl CalledProcessError"
    by (simp add: host_nothing_works_def)
  have p3: "host_empty (tap_primary ''A'' 10 20) = Inl FileNotFoundError"
    by (simp add: host_empty_def)
  from tap_fallback[OF c u, of host_tap_secondary_only 10 20]
       tap_fallback[OF c u, of host_nothing_works 10 20]
       tap_fallback[OF c u, of host_empty 10 20]
       c u p1 s1 p2 s2 p3
  show ?thesis by simp
qed

section \<open>The element resolver\<close>



lemma and_then_Some_cases:
  "(case and_then r (\<lambda>c. Inr (Some c)) of
      Inl e \<Rightarrow> Inl e | Inr None \<Rightarrow> z | Inr (Some c) \<Rightarrow> Inr (Some c))
     = and_then r (\<lambda>c. Inr (Some c))"
  by (cases r) (simp_all add: and_then_def)

lemma match_element_cases:
  "match_element ex q e =
     (if text_raises ex e then Inl AttributeError
      else if accepts ex q e
        then and_then (get_center_coordinates (element_bounds e)) (\<lambda>c. Inr (Some c))
      else Inr None)"
  by (cases "element_text e")
     (auto simp: match_element_def accepts_def text_is_string_def text_matches_def and_then_def
                 text_raises_def)

lemma search_recursive_node:
  "search_recursive ex q (JObj e) =
     (case match_element ex q e of
        Inl err \<Rightarrow> Inl err
      | Inr (Some c) \<Rightarrow> Inr (Some c)
      | Inr None \<Rightarrow> search_children ex q e)"
  by (simp add: search_children_def split: sum.splits option.splits json.splits)








lemma search_accepted_element:
  assumes "accepts ex q e"
  shows "find_element_by_text (JObj e) q ex =
           and_then (get_center_coordinates (element_bounds e)) (\<lambda>c. Inr (Some c))"
proof -
  from assms have "\<not> text_raises ex e"
    by (auto simp: accepts_def text_is_string_def text_raises_def split: json.splits)
  with assms show ?thesis
    by (simp add: find_element_by_text_def match_element_cases and_then_Some_cases)
qed

text \<open>
  C3.  For a matching node whose bounds value is a dictionary: with integers under
  \<open>x, y, width, height\<close> the resolver returns \<open>(x + width div 2, y + height div 2)\<close>, and
  with integers under \<open>left, top, right, bottom\<close>, and not all four keys of the first
  encoding, it returns \<open>((left + right) div 2, (top + bottom) div 2)\<close>; \<open>div\<close> on the
  integers rounds down.
\<close>

theorem center_of_dict_bounds:
  assumes "accepts exact_match query element"
      and "element_bounds element = JObj b"
  shows "(map_of b ''x'' = Some (JInt x) \<and> map_of b ''y'' = Some (JInt y)
           \<and> map_of b ''width'' = Some (JInt w) \<and> map_of b ''height'' = Some (JInt h)
          \<longrightarrow> find_element_by_text (JObj element) query exact_match
                = Inr (Some (x + w div 2, y + h div 2)))
       \<and> ((map_of b ''x'' = None \<or> map_of b ''y'' = None
              \<or> map_of b ''width'' = None \<or> map_of b ''height'' = None)
           \<and> map_of b ''left'' = Some (JInt l) \<and> map_of b ''top'' = Some (JInt t)
           \<and> map_of b ''right'' = Some (JInt r) \<and> map_of b ''bottom'' = Some (JInt bt)
          \<longrightarrow> find_element_by_text (JObj element) query exact_match
                = Inr (Some ((l + r) div 2, (t + bt) div 2)))"
proof -
  have s: "find_element_by_text (JObj element) query exact_match
             = and_then (get_center_coordinates (JObj b)) (\<lambda>c. Inr (Some c))"
    using search_accepted_element[OF assms(1)] assms(2) by simp
  have xywh: "map_of b ''x'' = Some (JInt x) \<and> map_of b ''y'' = Some (JInt y)
           \<and> map_of b ''width'' = Some (JInt w) \<and> map_of b ''height'' = Some (JInt h)
          \<longrightarrow> get_center_coordinates (JObj b) = Inr (x + w div 2, y + h div 2)"
    by (simp add: get_center_coordinates_def and_then_def py_floordiv2_def py_add_int_def)
  have ltrb: "(map_of b ''x'' = None \<or> map_of b ''y'' = None
              \<or> map_of b ''width'' = None \<or> map_of b ''height'' = None)
           \<and> map_of b ''left'' = Some (JInt l) \<and> map_of b ''top'' = Some (JInt t)
           \<and> map_of b ''right'' = Some (JInt r) \<and> map_of b ''bottom'' = Some (JInt bt)
          \<longrightarrow> get_center_coordinates (JObj b) = Inr ((l + r) div 2, (t + bt) div 2)"
    by (auto simp: get_center_coordinates_def and_then_def py_floordiv2_def py_add_def
             split: option.splits)
  from xywh ltrb show ?thesis unfolding s by (simp add: and_then_def)
qed

theorem center_of_dict_bounds_witness:
  "accepts False ''sign'' button_xywh
   \<and> find_element_by_text (JObj button_xywh) ''sign'' False = Inr (Some (60, 40))
   \<and> accepts True ''Sign In'' button_ltrb
   \<and> find_element_by_text (JObj button_ltrb) ''Sign In'' True = Inr (Some (60, 40))"
proof -
  have a1: "accepts False ''sign'' button_xywh" by code_simp
  have b1: "element_bounds button_xywh
              = JObj [(''x'', JInt 10), (''y'', JInt 20),
                      (''width'', JInt 101), (''height'', JInt 41)]"
    by code_simp
  have a2: "accepts True ''Sign In'' button_ltrb" by code_simp
  have b2: "element_bounds button_ltrb
              = JObj [(''left'', JInt 10), (''top'', JInt 20),
                      (''right'', JInt 111), (''bottom'', JInt 61)]"
    by code_simp
  from center_of_dict_bounds[OF a1 b1, of 10 20 101 41]
       center_of_dict_bounds[OF a2 b2, of _ _ _ _ 10 20 111 61] a1 a2
  show ?thesis by simp
qed

lemma starts_with_iff: "starts_with p s \<longleftrightarrow> prefix p s"
  by (induction p s rule: starts_with.induct) auto

lemma str_in_iff: "str_in needle s \<longleftrightarrow> sublist needle s"
proof (induction s)
  case Nil
  then show ?case by auto
next
  case (Cons c cs)
  show ?case
    by (simp add: Cons starts_with_iff sublist_Cons_right del: starts_with.simps)
qed

text \<open>
  C4.  For a node with the non-empty text \<open>t\<close> (and a bounds value with center \<open>c\<close>) and a
  query \<open>q\<close>, the resolver started on the node returns \<open>c\<close> when the text is accepted and
  goes on to the children of the node when it is not.  With exact match the text is
  accepted if and only if \<open>t = q\<close>, an equality of strings that distinguishes case, so
  that a \<open>t\<close> which is a proper part of \<open>q\<close> or has \<open>q\<close> as a proper part is rejected;
  without exact match it is accepted if and only if the lower-cased \<open>q\<close> is a contiguous
  part of the lower-cased \<open>t\<close>.  On a node without children the resolver therefore
  returns \<open>c\<close> exactly for the accepted texts, and nothing for the others.
\<close>

theorem text_match_rule:
  assumes "element_text element = JStr t" and "t \<noteq> []"
      and "truthy (element_bounds element)"
      and "get_center_coordinates (element_bounds element) = Inr c"
  shows "find_element_by_text (JObj element) query True
           = (if t = query then Inr (Some c) else search_children True query element)
       \<and> find_element_by_text (JObj element) query False
           = (if sublist (lower query) (lower t) then Inr (Some c)
              else search_children False query element)
       \<and> (element_children element = JList [] \<longrightarrow>
            (find_element_by_text (JObj element) query True = Inr (Some c) \<longleftrightarrow> t = query)
            \<and> (find_element_by_text (JObj element) query False = Inr (Some c)
                 \<longleftrightarrow> sublist (lower query) (lower t))
            \<and> (t \<noteq> query \<longrightarrow> find_element_by_text (JObj element) query True = Inr None)
            \<and> (\<not> sublist (lower query) (lower t)
                 \<longrightarrow> find_element_by_text (JObj element) query False = Inr None))"
proof -
  have m: "match_element True query element = (if t = query then Inr (Some c) else Inr None)"
          "match_element False query element =
             (if sublist (lower query) (lower t) then Inr (Some c) else Inr None)"
    using assms
    by (simp_all add: match_element_def text_matches_def and_then_def str_in_iff)
  have f: "find_element_by_text (JObj element) query True
           = (if t = query then Inr (Some c) else search_children True query element)"
          "find_element_by_text (JObj element) query False
           = (if sublist (lower query) (lower t) then Inr (Some c)
              else search_children False query element)"
    unfolding find_element_by_text_def search_recursive_node m by simp_all
  have c: "element_children element = JList [] \<longrightarrow>
             search_children True query element = Inr None
             \<and> search_children False query element = Inr None"
    by (simp add: search_children_def)
  from f c show ?thesis by auto
qed

theorem text_match_rule_witness:
  "element_text label_hello = JStr ''Hello World''
   \<and> truthy (element_bounds label_hello)
   \<and> get_center_coordinates (element_bounds label_hello) = Inr (4, 3)
   \<and> element_children label_hello = JList []
   \<and> find_element_by_text (JObj label_hello) ''Hello World'' True = Inr (Some (4, 3))
   \<and> find_element_by_text (JObj label_hello) ''Hello'' True = Inr None
   \<and> find_element_by_text (JObj label_hello) ''hello world'' True = Inr None
   \<and> find_element_by_text (JObj label_hello) ''Hello World!'' True = Inr None
   \<and> find_element_by_text (JObj label_hello) ''LO wo'' False = Inr (Some (4, 3))
   \<and> find_element_by_text (JObj label_hello) ''low'' False = Inr None"
proof -
  have t: "element_text label_hello = JStr ''Hello World''" by code_simp
  have n: "''Hello World'' \<noteq> []" by simp
  have b: "truthy (element_bounds label_hello)" by code_simp
  have c: "get_center_coordinates (element_bounds label_hello) = Inr (4, 3)" by code_simp
  have k: "element_children label_hello = JList []" by code_simp
  have s1: "sublist (lower ''LO wo'') (lower ''Hello World'')"
    unfolding str_in_iff[symmetric] by code_simp
  have s2: "\<not> sublist (lower ''low'') (lower ''Hello World'')"
    unfolding str_in_iff[symmetric] by code_simp
  note r = text_match_rule[OF t n b c]
  note childless = r[THEN conjunct2, THEN conjunct2, THEN mp, OF k]
  have e1: "find_element_by_text (JObj label_hello) ''Hello World'' True = Inr (Some (4, 3))"
    using childless[of "''Hello World''"] by simp
  have e2: "find_element_by_text (JObj label_hello) ''Hello'' True = Inr None"
    using childless[of "''Hello''"] by simp
  have e3: "find_element_by_text (JObj label_hello) ''hello world'' True = Inr None"
    using childless[of "''hello world''"] by simp
  have e4: "find_element_by_text (JObj label_hello) ''Hello World!'' True = Inr None"
    using childless[of "''Hello World!''"] by simp
  have p1: "find_element_by_text (JObj label_hello) ''LO wo'' False = Inr (Some (4, 3))"
    using childless[of "''LO wo''"] s1 by simp
  have p2: "find_element_by_text (JObj label_hello) ''low'' False = Inr None"
    using childless[of "''low''"] s2 by simp
  from t b c k e1 e2 e3 e4 p1 p2 show ?thesis by simp
qed

text \<open>
  C7, as stated: a sequence of four elements gives \<open>((a + c) div 2, (b + d) div 2)\<close> and a
  bounds value of any other shape outside the three encodings gives \<open>(100, 100)\<close>.  A
  sequence of five elements is none of the three encodings, and the resolver computes
  the center from its first four elements instead of falling back.
\<close>

theorem sequence_bounds_counterexample:
  "accepts True ''OK'' button_seq5
   \<and> element_bounds button_seq5 = JList [JInt 0, JInt 0, JInt 10, JInt 10, JInt 7]
   \<and> \<not> spec_shape (element_bounds button_seq5)
   \<and> find_element_by_text (JObj button_seq5) ''OK'' True = Inr (Some (5, 5))
   \<and> find_element_by_text (JObj button_seq5) ''OK'' True \<noteq> Inr (Some (100, 100))"
  by code_simp

lemma fallback: "\<not> code_shape bounds \<Longrightarrow> get_center_coordinates bounds = Inr (100, 100)"
  by (cases bounds)
     (auto simp: code_shape_def get_center_coordinates_def split: option.splits list.splits)

text \<open>
  C7, amended.  For a matching node whose bounds value is a sequence of at least four
  elements that begins with the integers \<open>a, b, c, d\<close>, the resolver returns
  \<open>((a + c) div 2, (b + d) div 2)\<close>, one formula for both positional readings; for a
  matching node whose bounds value is neither a dictionary with the four keys of one
  encoding nor a sequence of at least four elements, it returns \<open>(100, 100)\<close>.
\<close>

theorem center_of_sequence_bounds:
  assumes "accepts exact_match query element"
  shows "(element_bounds element = JList (JInt a # JInt b # JInt c # JInt d # rest)
          \<longrightarrow> find_element_by_text (JObj element) query exact_match
                = Inr (Some ((a + c) div 2, (b + d) div 2)))
       \<and> (\<not> code_shape (element_bounds element)
          \<longrightarrow> find_element_by_text (JObj element) query exact_match = Inr (Some (100, 100)))"
proof -
  have s: "find_element_by_text (JObj element) query exact_match
             = and_then (get_center_coordinates (element_bounds element)) (\<lambda>c. Inr (Some c))"
    by (rule search_accepted_element[OF assms])
  have l: "element_bounds element = JList (JInt a # JInt b # JInt c # JInt d # rest)
          \<longrightarrow> get_center_coordinates (element_bounds element)
                = Inr ((a + c) div 2, (b + d) div 2)"
    by (simp add: get_center_coordinates_def and_then_def py_floordiv2_def py_add_def)
  from l fallback[of "element_bounds element"] show ?thesis
    unfolding s by (auto simp: and_then_def)
qed

theorem center_of_sequence_bounds_witness:
  "accepts True ''OK'' button_seq4
   \<and> find_element_by_text (JObj button_seq4) ''OK'' True = Inr (Some (6, 7))
   \<and> accepts True ''OK'' button_seq5
   \<and> find_element_by_text (JObj button_seq5) ''OK'' True = Inr (Some (5, 5))
   \<and> accepts True ''OK'' button_odd_bounds
   \<and> code_shape (element_bounds button_odd_bounds) = False
   \<and> find_element_by_text (JObj button_odd_bounds) ''OK'' True = Inr (Some (100, 100))"
proof -
  have a4: "accepts True ''OK'' button_seq4" by code_simp
  have b4: "element_bounds button_seq4 = JList (JInt 3 # JInt 4 # JInt 10 # JInt 11 # [])"
    by code_simp
  have a5: "accepts True ''OK'' button_seq5" by code_simp
  have b5: "element_bounds button_seq5 = JList (JInt 0 # JInt 0 # JInt 10 # JInt 10 # [JInt 7])"
    by code_simp
  have a0: "accepts True ''OK'' button_odd_bounds" by code_simp
  have b0: "code_shape (element_bounds button_odd_bounds) = False" by code_simp
  from center_of_sequence_bounds[OF a4, of 3 4 10 11 "[]"]
       center_of_sequence_bounds[OF a5, of 0 0 10 10 "[JInt 7]"]
       center_of_sequence_bounds[OF a0]
       a4 b4 a5 b5 a0 b0
  show ?thesis by simp
qed

end
